theory Spec2Isabelle
  imports Complex_Main
begin

section \<open>The ledger store\<close>

text \<open>
  The edge functions \<^verbatim>\<open>place-order\<close>, \<^verbatim>\<open>sell-position\<close> and \<^verbatim>\<open>resolve-market\<close> are
  request handlers over a relational store. The store is modelled as a record of its
  tables; a handler takes the store and the request body and returns either the HTTP
  error it answers with or the updated store with the success payload.

  Row identifiers are strings (uuids on the wire), prices, quantities, share counts and
  balances are integers (the columns are \<^verbatim>\<open>INTEGER\<close> and a request body carries whole
  numbers; the range of the column type is not modelled). The tables \<^verbatim>\<open>positions\<close>, \<^verbatim>\<open>votes\<close> and \<^verbatim>\<open>league_members\<close> carry a
  \<^verbatim>\<open>UNIQUE\<close> constraint on their key pair, so a \<^verbatim>\<open>.single()\<close> lookup by key is the
  first row with that key and an update through the row id is an update of the rows with
  that key. Failures of the store itself (network, permissions) are not modelled; the
  \<^verbatim>\<open>CHECK\<close> constraints of the schema on \<^verbatim>\<open>trades\<close> and \<^verbatim>\<open>orders\<close> are, because the
  handlers do not inspect the error of those writes and simply carry on.
\<close>

datatype side = YES | NO

datatype market_status = OPEN | VOTING | RESOLVED | CANCELLED

record market =
  market_id :: string
  status :: market_status
  league_id :: "string option"
  resolved_outcome :: "side option"
  reported_at :: "int option"
  reported_by :: "string option"
  evidence_url :: "string option"

record order =
  order_id :: string
  o_market_id :: string
  o_user_id :: string
  o_side :: side
  o_price :: int
  o_quantity :: int
  remaining_quantity :: int
  is_sell_order :: bool
  created_at :: int

record trade =
  t_market_id :: string
  yes_user_id :: string
  no_user_id :: string
  t_price :: int
  t_quantity :: int

record position =
  p_market_id :: string
  p_user_id :: string
  yes_shares :: int
  no_shares :: int

record vote_row =
  v_market_id :: string
  v_user_id :: string
  vote :: side
  stake_amount :: int

record voting_settings =
  yes_bloc_weight :: rat
  no_bloc_weight :: rat
  admin_weight :: rat

record store =
  markets :: "market list"
  league_members :: "(string \<times> string) \<rightharpoonup> int"
  admin_roles :: "string list"
  orders :: "order list"
  trades :: "trade list"
  positions :: "position list"
  votes :: "vote_row list"
  settings :: "voting_settings option"

text \<open>
  \<open>league_members s (l, u)\<close> is the \<^verbatim>\<open>token_balance\<close> of the membership row of user \<open>u\<close> in
  league \<open>l\<close>; \<open>admin_roles\<close> lists the user ids that own a \<^verbatim>\<open>user_roles\<close> row with role
  \<^verbatim>\<open>admin\<close>.
\<close>

datatype error =
    PendingVoteBlocksTrading
  | MissingFields
  | InvalidPrice
  | InvalidQuantity
  | MarketNotFound
  | MarketNotOpen
  | NotMember
  | InsufficientBalance
  | NoPositionFound
  | InsufficientShares
  | NotAuthorized
  | MarketNotInVoting
  | NoVotesYet
  | NotAllVoted

subsection \<open>Store operations shared by the handlers\<close>

definition is_admin :: "store \<Rightarrow> string \<Rightarrow> bool" where
  "is_admin s uid = (uid \<in> set (admin_roles s))"

definition find_market :: "store \<Rightarrow> string \<Rightarrow> market option" where
  "find_market s mid = find (\<lambda>m. market_id m = mid) (markets s)"

definition member_balance :: "store \<Rightarrow> string option \<Rightarrow> string \<Rightarrow> int option" where
  "member_balance s lg uid = (case lg of None \<Rightarrow> None | Some l \<Rightarrow> league_members s (l, uid))"

text \<open>
  The read-then-write on a membership row that every payment uses:
  \<^verbatim>\<open>select token_balance ... single(); if (m) update({token_balance: m.token_balance + amt})\<close>.
  A null league id selects no row.
\<close>

definition credit :: "store \<Rightarrow> string option \<Rightarrow> string \<Rightarrow> int \<Rightarrow> store" where
  "credit s lg uid amt =
     (case lg of
        None \<Rightarrow> s
      | Some l \<Rightarrow>
          (case league_members s (l, uid) of
             None \<Rightarrow> s
           | Some b \<Rightarrow> s\<lparr>league_members := (league_members s)((l, uid) \<mapsto> b + amt)\<rparr>))"

definition find_position :: "store \<Rightarrow> string \<Rightarrow> string \<Rightarrow> position option" where
  "find_position s mid uid =
     find (\<lambda>p. p_market_id p = mid \<and> p_user_id p = uid) (positions s)"

text \<open>
  The upsert of a position that gives \<open>q\<close> shares of side \<open>sd\<close> to a user: the row found
  is updated with the count read plus \<open>q\<close>, a missing row is inserted with the other side
  at 0.
\<close>

definition add_shares :: "store \<Rightarrow> string \<Rightarrow> string \<Rightarrow> side \<Rightarrow> int \<Rightarrow> store" where
  "add_shares s mid uid sd q =
     (case find_position s mid uid of
        Some pos \<Rightarrow>
          s\<lparr>positions :=
              map (\<lambda>p. if p_market_id p = mid \<and> p_user_id p = uid
                        then (if sd = YES then p\<lparr>yes_shares := yes_shares pos + q\<rparr>
                              else p\<lparr>no_shares := no_shares pos + q\<rparr>)
                        else p) (positions s)\<rparr>
      | None \<Rightarrow>
          s\<lparr>positions := positions s @
              [\<lparr>p_market_id = mid, p_user_id = uid,
                yes_shares = (if sd = YES then q else 0),
                no_shares = (if sd = NO then q else 0)\<rparr>]\<rparr>)"

text \<open>
  \<^verbatim>\<open>trades\<close>: \<^verbatim>\<open>CHECK (price >= 1 AND price <= 99)\<close>, \<^verbatim>\<open>CHECK (quantity > 0)\<close>.
  \<^verbatim>\<open>orders\<close>: the same two and \<^verbatim>\<open>CHECK (remaining_quantity >= 0)\<close>. A write that
  violates one is refused by the store and the handler goes on.
\<close>

definition insert_trade :: "store \<Rightarrow> trade \<Rightarrow> store" where
  "insert_trade s t =
     (if 1 \<le> t_price t \<and> t_price t \<le> 99 \<and> 0 < t_quantity t
      then s\<lparr>trades := trades s @ [t]\<rparr> else s)"

definition insert_order :: "store \<Rightarrow> order \<Rightarrow> store" where
  "insert_order s ord =
     (if 1 \<le> o_price ord \<and> o_price ord \<le> 99 \<and> 0 < o_quantity ord \<and> 0 \<le> remaining_quantity ord
      then s\<lparr>orders := orders s @ [ord]\<rparr> else s)"

definition delete_order :: "store \<Rightarrow> string \<Rightarrow> store" where
  "delete_order s oid = s\<lparr>orders := filter (\<lambda>ord. order_id ord \<noteq> oid) (orders s)\<rparr>"

definition update_order :: "store \<Rightarrow> string \<Rightarrow> int \<Rightarrow> store" where
  "update_order s oid r =
     (if 0 \<le> r
      then s\<lparr>orders := map (\<lambda>ord. if order_id ord = oid then ord\<lparr>remaining_quantity := r\<rparr>
                                    else ord) (orders s)\<rparr>
      else s)"

text \<open>
  The pending-vote gate of \<^verbatim>\<open>place-order\<close>: all markets in VOTING, anywhere, against
  the markets the user has a vote row for.
\<close>

definition has_pending_vote :: "store \<Rightarrow> string \<Rightarrow> bool" where
  "has_pending_vote s uid =
     (let votingMarkets = filter (\<lambda>m. status m = VOTING) (markets s) in
      votingMarkets \<noteq> [] \<and>
      (let votedMarketIds = map v_market_id (filter (\<lambda>v. v_user_id v = uid) (votes s)) in
       list_ex (\<lambda>m. market_id m \<notin> set votedMarketIds) votingMarkets))"

section \<open>place-order\<close>

record place_order_request =
  po_market_id :: string
  po_user_id :: string
  po_side :: side
  po_price :: int
  po_quantity :: int
  po_league_id :: string

record match_result =
  orderId :: string
  orderUserId :: string
  fillQuantity :: int
  isContractTransfer :: bool
  originalRemaining :: int

record trade_response =
  matched :: int
  remaining :: int
  trades_count :: nat

text \<open>\<^verbatim>\<open>league_id || market.league_id\<close>: an empty string is falsy.\<close>

definition effective_league :: "string \<Rightarrow> string option \<Rightarrow> string option" where
  "effective_league lg mlg = (if lg \<noteq> [] then Some lg else mlg)"

definition cost_per_share :: "side \<Rightarrow> int \<Rightarrow> int" where
  "cost_per_share sd p = (if sd = YES then p else 100 - p)"

definition opposite_side :: "side \<Rightarrow> side" where
  "opposite_side sd = (if sd = YES then NO else YES)"

text \<open>
  The two candidate queries. \<^verbatim>\<open>order('created_at', ascending)\<close> is a sort of the
  selected rows on their creation time; rows created at the same time, whose order the
  store leaves open, keep their table order here.
\<close>

definition sell_candidates :: "store \<Rightarrow> place_order_request \<Rightarrow> order list" where
  "sell_candidates s req =
     sort_key created_at
       (filter (\<lambda>ord. o_market_id ord = po_market_id req \<and> o_side ord = po_side req \<and>
                       o_price ord = po_price req \<and> is_sell_order ord \<and>
                       0 < remaining_quantity ord \<and> o_user_id ord \<noteq> po_user_id req)
          (orders s))"

definition mint_candidates :: "store \<Rightarrow> place_order_request \<Rightarrow> order list" where
  "mint_candidates s req =
     sort_key created_at
       (filter (\<lambda>ord. o_market_id ord = po_market_id req \<and>
                       o_side ord = opposite_side (po_side req) \<and>
                       o_price ord = 100 - po_price req \<and> \<not> is_sell_order ord \<and>
                       0 < remaining_quantity ord \<and> o_user_id ord \<noteq> po_user_id req)
          (orders s))"

text \<open>
  One \<^verbatim>\<open>for (const o of candidates)\<close> loop: it stops at the first candidate reached with
  nothing left to fill, otherwise records a match of \<open>min\<close> of what is left and the
  candidate's remaining quantity. The result is the matches pushed and the quantity
  left after the loop.
\<close>

fun walk_candidates :: "bool \<Rightarrow> int \<Rightarrow> order list \<Rightarrow> match_result list \<times> int" where
  "walk_candidates tr rem [] = ([], rem)"
| "walk_candidates tr rem (ord # ords) =
     (if rem = 0 then ([], rem)
      else
        let fill = min rem (remaining_quantity ord);
            rest = walk_candidates tr (rem - fill) ords
        in (\<lparr>orderId = order_id ord, orderUserId = o_user_id ord, fillQuantity = fill,
             isContractTransfer = tr, originalRemaining = remaining_quantity ord\<rparr> # fst rest,
            snd rest))"

definition plan_matches :: "store \<Rightarrow> place_order_request \<Rightarrow> match_result list \<times> int" where
  "plan_matches s req =
     (let direct = walk_candidates True (po_quantity req) (sell_candidates s req);
          mint = walk_candidates False (snd direct) (mint_candidates s req)
      in (fst direct @ fst mint, snd mint))"

definition trade_of_match :: "place_order_request \<Rightarrow> match_result \<Rightarrow> trade" where
  "trade_of_match req m =
     (let yesUserId = (if po_side req = YES then po_user_id req else orderUserId m);
          noUserId = (if po_side req = NO then po_user_id req else orderUserId m);
          tradePrice = (if isContractTransfer m then po_price req
                        else if po_side req = YES then po_price req else 100 - po_price req)
      in \<lparr>t_market_id = po_market_id req, yes_user_id = yesUserId, no_user_id = noUserId,
          t_price = tradePrice, t_quantity = fillQuantity m\<rparr>)"

definition settle_matched_order :: "store \<Rightarrow> match_result \<Rightarrow> store" where
  "settle_matched_order s m =
     (let newRemaining = originalRemaining m - fillQuantity m
      in if newRemaining = 0 then delete_order s (orderId m)
         else update_order s (orderId m) newRemaining)"

definition execute_match ::
  "place_order_request \<Rightarrow> string option \<Rightarrow> store \<Rightarrow> match_result \<Rightarrow> store" where
  "execute_match req lg s m =
     (if isContractTransfer m then
        let sellerId = orderUserId m;
            s1 = insert_trade s (trade_of_match req m);
            saleProceeds = (if po_side req = YES then po_price req * fillQuantity m
                            else (100 - po_price req) * fillQuantity m);
            s2 = credit s1 lg sellerId saleProceeds;
            s3 = add_shares s2 (po_market_id req) (po_user_id req) (po_side req) (fillQuantity m)
        in settle_matched_order s3 m
      else
        let yesUserId = (if po_side req = YES then po_user_id req else orderUserId m);
            noUserId = (if po_side req = NO then po_user_id req else orderUserId m);
            s1 = insert_trade s (trade_of_match req m);
            s2 = add_shares s1 (po_market_id req) yesUserId YES (fillQuantity m);
            s3 = add_shares s2 (po_market_id req) noUserId NO (fillQuantity m)
        in settle_matched_order s3 m)"

text \<open>
  Everything after the escrow step: plan the matches on the store as it is then, execute
  them in order, rest the remainder. \<open>new_id\<close> and \<open>now\<close> are the id and
  creation time the store gives to an inserted order row.
\<close>

definition resting_buy_order :: "string \<Rightarrow> int \<Rightarrow> place_order_request \<Rightarrow> int \<Rightarrow> order" where
  "resting_buy_order new_id now req left =
     \<lparr>order_id = new_id, o_market_id = po_market_id req, o_user_id = po_user_id req,
      o_side = po_side req, o_price = po_price req, o_quantity = po_quantity req,
      remaining_quantity = left, is_sell_order = False, created_at = now\<rparr>"

definition match_buy ::
  "string \<Rightarrow> int \<Rightarrow> store \<Rightarrow> place_order_request \<Rightarrow> string option \<Rightarrow> store \<times> trade_response" where
  "match_buy new_id now s req lg =
     (let plan = plan_matches s req;
          matches = fst plan;
          remainingQuantity = snd plan;
          s1 = foldl (execute_match req lg) s matches;
          s2 = (if 0 < remainingQuantity
                then insert_order s1 (resting_buy_order new_id now req remainingQuantity)
                else s1)
      in (s2, \<lparr>matched = po_quantity req - remainingQuantity, remaining = remainingQuantity,
               trades_count = length matches\<rparr>))"

definition debit :: "store \<Rightarrow> string option \<Rightarrow> string \<Rightarrow> int \<Rightarrow> int \<Rightarrow> store" where
  "debit s lg uid bal totalCost =
     (case lg of
        None \<Rightarrow> s
      | Some l \<Rightarrow> s\<lparr>league_members := (league_members s)((l, uid) \<mapsto> bal - totalCost)\<rparr>)"

definition place_order ::
  "string \<Rightarrow> int \<Rightarrow> store \<Rightarrow> place_order_request \<Rightarrow> error + (store \<times> trade_response)" where
  "place_order new_id now s req =
     (if has_pending_vote s (po_user_id req) then Inl PendingVoteBlocksTrading
      else
        let isAdmin = is_admin s (po_user_id req) in
        if po_market_id req = [] \<or> po_user_id req = [] \<or> po_price req = 0 \<or> po_quantity req = 0
        then Inl MissingFields
        else if po_price req < 1 \<or> po_price req > 99 then Inl InvalidPrice
        else if po_quantity req < 1 then Inl InvalidQuantity
        else
          (case find_market s (po_market_id req) of
             None \<Rightarrow> Inl MarketNotFound
           | Some market \<Rightarrow>
               if status market \<noteq> OPEN then Inl MarketNotOpen
               else
                 let effectiveLeagueId = effective_league (po_league_id req) (league_id market);
                     member = member_balance s effectiveLeagueId (po_user_id req);
                     totalCost = cost_per_share (po_side req) (po_price req) * po_quantity req
                 in if \<not> isAdmin then
                      (case member of
                         None \<Rightarrow> Inl NotMember
                       | Some bal \<Rightarrow>
                           if bal < totalCost then Inl InsufficientBalance
                           else Inr (match_buy new_id now
                                       (debit s effectiveLeagueId (po_user_id req) bal totalCost)
                                       req effectiveLeagueId))
                    else Inr (match_buy new_id now s req effectiveLeagueId)))"

section \<open>sell-position\<close>

record sell_position_request =
  sp_market_id :: string
  sp_user_id :: string
  sp_side_to_sell :: side
  sp_price :: int
  sp_quantity :: int
  sp_league_id :: string

text \<open>An absent \<^verbatim>\<open>league_id\<close> is the empty string here: both are falsy.\<close>

record matched_trade =
  buyer_user_id :: string
  mt_quantity :: int

record order_update =
  ou_id :: string
  ou_remaining_quantity :: int

definition matching_buy_orders :: "store \<Rightarrow> sell_position_request \<Rightarrow> order list" where
  "matching_buy_orders s req =
     sort_key created_at
       (filter (\<lambda>ord. o_market_id ord = sp_market_id req \<and> o_side ord = sp_side_to_sell req \<and>
                       o_price ord = sp_price req \<and> \<not> is_sell_order ord \<and>
                       0 < remaining_quantity ord \<and> o_user_id ord \<noteq> sp_user_id req)
          (orders s))"

fun walk_buy_orders ::
  "int \<Rightarrow> order list \<Rightarrow> matched_trade list \<times> order_update list \<times> int" where
  "walk_buy_orders rem [] = ([], [], rem)"
| "walk_buy_orders rem (ord # ords) =
     (if rem = 0 then ([], [], rem)
      else
        let fillQuantity = min rem (remaining_quantity ord);
            rest = walk_buy_orders (rem - fillQuantity) ords
        in (\<lparr>buyer_user_id = o_user_id ord, mt_quantity = fillQuantity\<rparr> # fst rest,
            \<lparr>ou_id = order_id ord,
              ou_remaining_quantity = remaining_quantity ord - fillQuantity\<rparr> # fst (snd rest),
            snd (snd rest)))"

definition trade_of_sale :: "sell_position_request \<Rightarrow> matched_trade \<Rightarrow> trade" where
  "trade_of_sale req tr =
     \<lparr>t_market_id = sp_market_id req,
      yes_user_id = (if sp_side_to_sell req = YES then buyer_user_id tr else sp_user_id req),
      no_user_id = (if sp_side_to_sell req = NO then buyer_user_id tr else sp_user_id req),
      t_price = sp_price req, t_quantity = mt_quantity tr\<rparr>"

definition execute_sale ::
  "sell_position_request \<Rightarrow> string option \<Rightarrow> store \<Rightarrow> matched_trade \<Rightarrow> store" where
  "execute_sale req lg s tr =
     (let s1 = insert_trade s (trade_of_sale req tr);
          saleProceeds = (if sp_side_to_sell req = YES then sp_price req * mt_quantity tr
                          else (100 - sp_price req) * mt_quantity tr);
          s2 = credit s1 lg (sp_user_id req) saleProceeds
      in add_shares s2 (sp_market_id req) (buyer_user_id tr) (sp_side_to_sell req)
           (mt_quantity tr))"

definition apply_order_update :: "store \<Rightarrow> order_update \<Rightarrow> store" where
  "apply_order_update s u =
     (if ou_remaining_quantity u = 0 then delete_order s (ou_id u)
      else update_order s (ou_id u) (ou_remaining_quantity u))"

definition escrow_shares :: "store \<Rightarrow> sell_position_request \<Rightarrow> position \<Rightarrow> store" where
  "escrow_shares s req pos =
     s\<lparr>positions :=
         map (\<lambda>p. if p_market_id p = sp_market_id req \<and> p_user_id p = sp_user_id req
                   then (if sp_side_to_sell req = YES
                         then p\<lparr>yes_shares := yes_shares pos - sp_quantity req\<rparr>
                         else p\<lparr>no_shares := no_shares pos - sp_quantity req\<rparr>)
                   else p) (positions s)\<rparr>"

definition resting_sell_order :: "string \<Rightarrow> int \<Rightarrow> sell_position_request \<Rightarrow> int \<Rightarrow> order" where
  "resting_sell_order new_id now req left =
     \<lparr>order_id = new_id, o_market_id = sp_market_id req, o_user_id = sp_user_id req,
      o_side = sp_side_to_sell req, o_price = sp_price req, o_quantity = sp_quantity req,
      remaining_quantity = left, is_sell_order = True, created_at = now\<rparr>"

definition match_sell ::
  "string \<Rightarrow> int \<Rightarrow> store \<Rightarrow> sell_position_request \<Rightarrow> string option \<Rightarrow> store \<times> trade_response" where
  "match_sell new_id now s req lg =
     (let plan = walk_buy_orders (sp_quantity req) (matching_buy_orders s req);
          matchedTrades = fst plan;
          orderUpdates = fst (snd plan);
          remainingQuantity = snd (snd plan);
          s1 = foldl (execute_sale req lg) s matchedTrades;
          s2 = foldl apply_order_update s1 orderUpdates;
          s3 = (if 0 < remainingQuantity
                then insert_order s2 (resting_sell_order new_id now req remainingQuantity)
                else s2)
      in (s3, \<lparr>matched = sp_quantity req - remainingQuantity, remaining = remainingQuantity,
               trades_count = length matchedTrades\<rparr>))"

definition sell_position ::
  "string \<Rightarrow> int \<Rightarrow> store \<Rightarrow> sell_position_request \<Rightarrow> error + (store \<times> trade_response)" where
  "sell_position new_id now s req =
     (if sp_market_id req = [] \<or> sp_user_id req = [] \<or> sp_price req = 0 \<or> sp_quantity req = 0
      then Inl MissingFields
      else if sp_price req < 1 \<or> sp_price req > 99 then Inl InvalidPrice
      else
        (case find_market s (sp_market_id req) of
           None \<Rightarrow> Inl MarketNotFound
         | Some market \<Rightarrow>
             if status market \<noteq> OPEN then Inl MarketNotOpen
             else
               let effectiveLeagueId = effective_league (sp_league_id req) (league_id market) in
               (case find_position s (sp_market_id req) (sp_user_id req) of
                  None \<Rightarrow> Inl NoPositionFound
                | Some pos \<Rightarrow>
                    let availableShares =
                          (if sp_side_to_sell req = YES then yes_shares pos else no_shares pos)
                    in if sp_quantity req > availableShares then Inl InsufficientShares
                       else Inr (match_sell new_id now (escrow_shares s req pos) req
                                   effectiveLeagueId))))"

section \<open>resolve-market\<close>

record resolve_market_request =
  rm_market_id :: string
  rm_outcome :: side
  rm_admin_user_id :: "string option"

datatype resolve_response = Rejected | Resolved side int int

text \<open>
  The weighted tally. The handler computes it in double-precision floating point; the
  model computes the same expression in exact rational arithmetic, so the two can differ
  only where rounding moves a value across the threshold 50. The defaults stand in for
  a missing settings row.
\<close>

definition yesBlocWeight :: "store \<Rightarrow> rat" where
  "yesBlocWeight s = (case settings s of Some st \<Rightarrow> yes_bloc_weight st | None \<Rightarrow> 99 / 2)"

definition noBlocWeight :: "store \<Rightarrow> rat" where
  "noBlocWeight s = (case settings s of Some st \<Rightarrow> no_bloc_weight st | None \<Rightarrow> 99 / 2)"

definition adminWeight :: "store \<Rightarrow> rat" where
  "adminWeight s = (case settings s of Some st \<Rightarrow> admin_weight st | None \<Rightarrow> 1)"

definition admin_tally :: "store \<Rightarrow> rat \<times> rat \<Rightarrow> vote_row \<Rightarrow> rat \<times> rat" where
  "admin_tally s acc v =
     (if is_admin s (v_user_id v)
      then (if vote v = YES then (fst acc + adminWeight s, snd acc)
            else (fst acc, snd acc + adminWeight s))
      else acc)"

definition yesPercentage :: "store \<Rightarrow> vote_row list \<Rightarrow> rat" where
  "yesPercentage s vs =
     (let yesVoters = filter (\<lambda>v. vote v = YES) vs;
          noVoters = filter (\<lambda>v. vote v = NO) vs;
          nonAdminYesVoters = filter (\<lambda>v. \<not> is_admin s (v_user_id v)) yesVoters;
          nonAdminNoVoters = filter (\<lambda>v. \<not> is_admin s (v_user_id v)) noVoters;
          totalNonAdminVoters = length nonAdminYesVoters + length nonAdminNoVoters;
          bloc = (if totalNonAdminVoters > 0
                  then (yesBlocWeight s *
                          (of_nat (length nonAdminYesVoters) / of_nat totalNonAdminVoters),
                        noBlocWeight s *
                          (of_nat (length nonAdminNoVoters) / of_nat totalNonAdminVoters))
                  else (0, 0));
          totals = foldl (admin_tally s) bloc vs;
          yesWeightedTotal = fst totals;
          noWeightedTotal = snd totals;
          totalWeightedVotes = yesWeightedTotal + noWeightedTotal
      in if totalWeightedVotes > 0 then yesWeightedTotal / totalWeightedVotes * 100 else 0)"

text \<open>The two stake loops differ only in the choice whose voters are refunded.\<close>

definition refund_stake :: "side \<Rightarrow> string option \<Rightarrow> store \<Rightarrow> vote_row \<Rightarrow> store" where
  "refund_stake ch lg s v =
     (if vote v = ch \<and> stake_amount v > 0 \<and> lg \<noteq> None
      then credit s lg (v_user_id v) (stake_amount v) else s)"

definition refund_stakes :: "side \<Rightarrow> string option \<Rightarrow> store \<Rightarrow> vote_row list \<Rightarrow> store" where
  "refund_stakes ch lg s vs = foldl (refund_stake ch lg) s vs"

definition reopen_market :: "store \<Rightarrow> string \<Rightarrow> store" where
  "reopen_market s mid =
     s\<lparr>markets :=
         map (\<lambda>m. if market_id m = mid
                   then m\<lparr>status := OPEN, reported_at := None, reported_by := None,
                          evidence_url := None\<rparr>
                   else m) (markets s),
       votes := filter (\<lambda>v. v_market_id v \<noteq> mid) (votes s)\<rparr>"

definition set_resolved :: "store \<Rightarrow> string \<Rightarrow> side \<Rightarrow> store" where
  "set_resolved s mid outc =
     s\<lparr>markets :=
         map (\<lambda>m. if market_id m = mid
                   then m\<lparr>status := RESOLVED, resolved_outcome := Some outc\<rparr>
                   else m) (markets s)\<rparr>"

text \<open>The payout loop and the refund loop carry the store and the running total.\<close>

definition pay_position :: "side \<Rightarrow> string option \<Rightarrow> store \<times> int \<Rightarrow> position \<Rightarrow> store \<times> int" where
  "pay_position outc lg acc pos =
     (let winningShares = (if outc = YES then yes_shares pos else no_shares pos) in
      if winningShares > 0 \<and> lg \<noteq> None then
        (let payout = winningShares * 100 in
         case member_balance (fst acc) lg (p_user_id pos) of
           Some b \<Rightarrow> (credit (fst acc) lg (p_user_id pos) payout, snd acc + payout)
         | None \<Rightarrow> acc)
      else acc)"

definition refund_order :: "string option \<Rightarrow> store \<times> int \<Rightarrow> order \<Rightarrow> store \<times> int" where
  "refund_order lg acc ord =
     (let costPerShare = (if o_side ord = YES then o_price ord else 100 - o_price ord);
          refund = costPerShare * remaining_quantity ord;
          paid = (case member_balance (fst acc) lg (o_user_id ord) of
                    Some b \<Rightarrow> (credit (fst acc) lg (o_user_id ord) refund, snd acc + refund)
                  | None \<Rightarrow> acc)
      in (delete_order (fst paid) (order_id ord), snd paid))"

definition settle ::
  "store \<Rightarrow> string \<Rightarrow> string option \<Rightarrow> side \<Rightarrow> store \<times> resolve_response" where
  "settle s mid lg resolveOutcome =
     (let s1 = set_resolved s mid resolveOutcome;
          allPositions = filter (\<lambda>p. p_market_id p = mid) (positions s1);
          paid = foldl (pay_position resolveOutcome lg) (s1, 0) allPositions;
          openOrders = filter (\<lambda>ord. o_market_id ord = mid \<and> 0 < remaining_quantity ord)
                         (orders (fst paid));
          refunded = foldl (refund_order lg) (fst paid, 0) openOrders
      in (fst refunded, Resolved resolveOutcome (snd paid) (snd refunded)))"

definition resolve_market ::
  "store \<Rightarrow> resolve_market_request \<Rightarrow> error + (store \<times> resolve_response)" where
  "resolve_market s req =
     (if rm_market_id req = [] then Inl MissingFields
      else
        (case find_market s (rm_market_id req) of
           None \<Rightarrow> Inl MarketNotFound
         | Some market \<Rightarrow>
             let leagueId = league_id market in
             (case (case rm_admin_user_id req of
                      None \<Rightarrow> None
                    | Some a \<Rightarrow> if a = [] then None else Some a) of
                Some a \<Rightarrow>
                  if \<not> is_admin s a then Inl NotAuthorized
                  else Inr (settle s (rm_market_id req) leagueId (rm_outcome req))
              | None \<Rightarrow>
                  if status market \<noteq> VOTING then Inl MarketNotInVoting
                  else
                    let stakeholders =
                          filter (\<lambda>p. yes_shares p > 0 \<or> no_shares p > 0)
                            (filter (\<lambda>p. p_market_id p = rm_market_id req) (positions s));
                        mvotes = filter (\<lambda>v. v_market_id v = rm_market_id req) (votes s)
                    in if mvotes = [] then Inl NoVotesYet
                       else if \<not> list_all (\<lambda>p. p_user_id p \<in> set (map v_user_id mvotes))
                                   stakeholders
                       then Inl NotAllVoted
                       else if yesPercentage s mvotes \<le> 50
                       then Inr (reopen_market (refund_stakes NO leagueId s mvotes)
                                   (rm_market_id req), Rejected)
                       else Inr (settle (refund_stakes YES leagueId s mvotes)
                                   (rm_market_id req) leagueId YES))))"

section \<open>Example stores\<close>

text \<open>
  One league \<open>L\<close> with an open market \<open>m1\<close>; \<open>root\<close> holds the admin role. The stores
  below differ in their order book, positions and votes.
\<close>

definition ex_market :: "string \<Rightarrow> market_status \<Rightarrow> market" where
  "ex_market mid st =
     \<lparr>market_id = mid, status = st, league_id = Some ''L'', resolved_outcome = None,
      reported_at = None, reported_by = None, evidence_url = None\<rparr>"

definition ex_members :: "(string \<times> string) \<rightharpoonup> int" where
  "ex_members =
     [(''L'', ''alice'') \<mapsto> 1000, (''L'', ''bob'') \<mapsto> 1000, (''L'', ''carol'') \<mapsto> 500,
      (''L'', ''root'') \<mapsto> 1000]"

text \<open>
  The direct-sale scenario: alice rests a YES sell of 3 at 55 (created at time 1), carol
  one of 2 at the same price (time 2); bob, and then the admin, buy 2 YES at 55.
\<close>

definition ex_direct :: store where
  "ex_direct =
     \<lparr>markets = [ex_market ''m1'' OPEN],
      league_members = ex_members,
      admin_roles = [''root''],
      orders =
        [\<lparr>order_id = ''oB'', o_market_id = ''m1'', o_user_id = ''carol'', o_side = YES,
          o_price = 55, o_quantity = 2, remaining_quantity = 2, is_sell_order = True,
          created_at = 2\<rparr>,
         \<lparr>order_id = ''oA'', o_market_id = ''m1'', o_user_id = ''alice'', o_side = YES,
          o_price = 55, o_quantity = 3, remaining_quantity = 3, is_sell_order = True,
          created_at = 1\<rparr>],
      trades = [], positions = [], votes = [], settings = None\<rparr>"

definition ex_buy_yes :: "string \<Rightarrow> place_order_request" where
  "ex_buy_yes uid =
     \<lparr>po_market_id = ''m1'', po_user_id = uid, po_side = YES, po_price = 55, po_quantity = 2,
      po_league_id = ''L''\<rparr>"

text \<open>
  A book with a resting NO sell at 30 by alice and a resting YES buy at 70 by carol; bob
  buys 3 NO at 30, which meets both.
\<close>

definition ex_mixed :: store where
  "ex_mixed =
     \<lparr>markets = [ex_market ''m1'' OPEN],
      league_members = ex_members,
      admin_roles = [''root''],
      orders =
        [\<lparr>order_id = ''o1'', o_market_id = ''m1'', o_user_id = ''alice'', o_side = NO,
          o_price = 30, o_quantity = 1, remaining_quantity = 1, is_sell_order = True,
          created_at = 1\<rparr>,
         \<lparr>order_id = ''o2'', o_market_id = ''m1'', o_user_id = ''carol'', o_side = YES,
          o_price = 70, o_quantity = 1, remaining_quantity = 1, is_sell_order = False,
          created_at = 2\<rparr>],
      trades = [], positions = [], votes = [], settings = None\<rparr>"

definition ex_buy_no :: place_order_request where
  "ex_buy_no =
     \<lparr>po_market_id = ''m1'', po_user_id = ''bob'', po_side = NO, po_price = 30, po_quantity = 3,
      po_league_id = ''L''\<rparr>"

text \<open>
  bob holds 2 YES shares of the open market \<open>m1\<close> and the book is empty. In
  \<open>ex_pending\<close> a second market \<open>m2\<close> is in VOTING and bob has no vote row for it.
\<close>

definition ex_holder :: store where
  "ex_holder =
     \<lparr>markets = [ex_market ''m1'' OPEN],
      league_members = ex_members,
      admin_roles = [''root''],
      orders = [], trades = [],
      positions = [\<lparr>p_market_id = ''m1'', p_user_id = ''bob'', yes_shares = 2, no_shares = 0\<rparr>],
      votes = [], settings = None\<rparr>"

definition ex_pending :: store where
  "ex_pending = ex_holder\<lparr>markets := [ex_market ''m1'' OPEN, ex_market ''m2'' VOTING]\<rparr>"

definition ex_sell :: "int \<Rightarrow> sell_position_request" where
  "ex_sell q =
     \<lparr>sp_market_id = ''m1'', sp_user_id = ''bob'', sp_side_to_sell = YES, sp_price = 60,
      sp_quantity = q, sp_league_id = ''L''\<rparr>"

text \<open>
  A market in VOTING in which alice holds 3 YES and bob 5 NO shares, with one resting
  order; \<open>ex_voted a b\<close> adds alice's vote \<open>a\<close> and bob's vote \<open>b\<close>, each with a stake
  of 50.
\<close>

definition ex_voting :: store where
  "ex_voting =
     \<lparr>markets = [(ex_market ''m1'' VOTING)\<lparr>reported_at := Some 7, reported_by := Some ''alice'',
                    evidence_url := Some ''http://e''\<rparr>],
      league_members = ex_members,
      admin_roles = [''root''],
      orders =
        [\<lparr>order_id = ''o9'', o_market_id = ''m1'', o_user_id = ''carol'', o_side = YES,
          o_price = 40, o_quantity = 2, remaining_quantity = 2, is_sell_order = False,
          created_at = 3\<rparr>],
      trades = [],
      positions =
        [\<lparr>p_market_id = ''m1'', p_user_id = ''alice'', yes_shares = 3, no_shares = 0\<rparr>,
         \<lparr>p_market_id = ''m1'', p_user_id = ''bob'', yes_shares = 0, no_shares = 5\<rparr>],
      votes = [], settings = None\<rparr>"

definition ex_voted :: "side \<Rightarrow> side \<Rightarrow> store" where
  "ex_voted a b =
     ex_voting\<lparr>votes :=
       [\<lparr>v_market_id = ''m1'', v_user_id = ''alice'', vote = a, stake_amount = 50\<rparr>,
        \<lparr>v_market_id = ''m1'', v_user_id = ''bob'', vote = b, stake_amount = 50\<rparr>]\<rparr>"

definition ex_force :: resolve_market_request where
  "ex_force = \<lparr>rm_market_id = ''m1'', rm_outcome = YES, rm_admin_user_id = Some ''root''\<rparr>"

definition ex_tally :: resolve_market_request where
  "ex_tally = \<lparr>rm_market_id = ''m1'', rm_outcome = YES, rm_admin_user_id = None\<rparr>"

lemmas ex_defs =
  ex_market_def ex_members_def ex_direct_def ex_buy_yes_def ex_mixed_def ex_buy_no_def
  ex_holder_def ex_pending_def ex_sell_def ex_voting_def ex_voted_def ex_force_def ex_tally_def

lemmas model_defs =
  place_order_def has_pending_vote_def is_admin_def find_market_def effective_league_def
  member_balance_def cost_per_share_def match_buy_def debit_def plan_matches_def
  sell_candidates_def mint_candidates_def opposite_side_def execute_match_def
  trade_of_match_def insert_trade_def credit_def add_shares_def find_position_def
  settle_matched_order_def delete_order_def update_order_def insert_order_def
  resting_buy_order_def sell_position_def match_sell_def matching_buy_orders_def
  trade_of_sale_def execute_sale_def apply_order_update_def escrow_shares_def
  resting_sell_order_def resolve_market_def settle_def set_resolved_def pay_position_def
  refund_order_def refund_stake_def refund_stakes_def reopen_market_def yesPercentage_def
  admin_tally_def yesBlocWeight_def noBlocWeight_def adminWeight_def

section \<open>Frame facts of the store operations\<close>

lemma credit_frame [simp]:
  "trades (credit s lg u a) = trades s"
  "orders (credit s lg u a) = orders s"
  "positions (credit s lg u a) = positions s"
  "markets (credit s lg u a) = markets s"
  "votes (credit s lg u a) = votes s"
  "admin_roles (credit s lg u a) = admin_roles s"
  "settings (credit s lg u a) = settings s"
  by (simp_all add: credit_def split: option.splits)

lemma credit_other [simp]:
  "u \<noteq> u' \<Longrightarrow> league_members (credit s lg u a) (l, u') = league_members s (l, u')"
  by (simp add: credit_def split: option.splits)

lemma add_shares_frame [simp]:
  "trades (add_shares s m u sd q) = trades s"
  "orders (add_shares s m u sd q) = orders s"
  "league_members (add_shares s m u sd q) = league_members s"
  "markets (add_shares s m u sd q) = markets s"
  "votes (add_shares s m u sd q) = votes s"
  "admin_roles (add_shares s m u sd q) = admin_roles s"
  by (simp_all add: add_shares_def split: option.splits)

lemma insert_trade_frame [simp]:
  "orders (insert_trade s t) = orders s"
  "positions (insert_trade s t) = positions s"
  "league_members (insert_trade s t) = league_members s"
  "markets (insert_trade s t) = markets s"
  "votes (insert_trade s t) = votes s"
  "admin_roles (insert_trade s t) = admin_roles s"
  by (simp_all add: insert_trade_def)

lemma insert_order_frame [simp]:
  "trades (insert_order s ord) = trades s"
  "positions (insert_order s ord) = positions s"
  "league_members (insert_order s ord) = league_members s"
  "markets (insert_order s ord) = markets s"
  "votes (insert_order s ord) = votes s"
  by (simp_all add: insert_order_def)

lemma delete_order_frame [simp]:
  "trades (delete_order s oid) = trades s"
  "positions (delete_order s oid) = positions s"
  "league_members (delete_order s oid) = league_members s"
  "markets (delete_order s oid) = markets s"
  "votes (delete_order s oid) = votes s"
  by (simp_all add: delete_order_def)

lemma update_order_frame [simp]:
  "trades (update_order s oid r) = trades s"
  "positions (update_order s oid r) = positions s"
  "league_members (update_order s oid r) = league_members s"
  "markets (update_order s oid r) = markets s"
  "votes (update_order s oid r) = votes s"
  by (simp_all add: update_order_def)

lemma settle_matched_order_frame [simp]:
  "trades (settle_matched_order s m) = trades s"
  "positions (settle_matched_order s m) = positions s"
  "league_members (settle_matched_order s m) = league_members s"
  "markets (settle_matched_order s m) = markets s"
  "votes (settle_matched_order s m) = votes s"
  by (simp_all add: settle_matched_order_def Let_def)

lemma execute_match_members:
  "orderUserId m \<noteq> u \<Longrightarrow>
   league_members (execute_match req lg s m) (l, u) = league_members s (l, u)"
  by (simp add: execute_match_def Let_def)

lemma foldl_execute_match_members:
  "\<forall>m \<in> set ms. orderUserId m \<noteq> u \<Longrightarrow>
   league_members (foldl (execute_match req lg) s ms) (l, u) = league_members s (l, u)"
  by (induction ms arbitrary: s) (simp_all add: execute_match_members)

lemma walk_candidates_users:
  "m \<in> set (fst (walk_candidates tr rem cs)) \<Longrightarrow> orderUserId m \<in> o_user_id ` set cs"
  by (induction cs arbitrary: rem) (auto simp: Let_def split: if_splits)

lemma sell_candidates_users:
  "ord \<in> set (sell_candidates s req) \<Longrightarrow> o_user_id ord \<noteq> po_user_id req"
  by (simp add: sell_candidates_def)

lemma mint_candidates_users:
  "ord \<in> set (mint_candidates s req) \<Longrightarrow> o_user_id ord \<noteq> po_user_id req"
  by (simp add: mint_candidates_def)

lemma plan_matches_users:
  "m \<in> set (fst (plan_matches s req)) \<Longrightarrow> orderUserId m \<noteq> po_user_id req"
  by (auto simp: plan_matches_def Let_def dest!: walk_candidates_users
           dest: sell_candidates_users mint_candidates_users)

lemma match_buy_members:
  "league_members (fst (match_buy new_id now s req lg)) (l, po_user_id req) =
   league_members s (l, po_user_id req)"
  by (simp add: match_buy_def Let_def foldl_execute_match_members plan_matches_users)

section \<open>The matching plan of a buy order\<close>

lemma walk_candidates_zero [simp]: "walk_candidates tr 0 cs = ([], 0)"
  by (cases cs) simp_all

lemma walk_candidates_length: "length (fst (walk_candidates tr rem cs)) \<le> length cs"
  by (induction cs arbitrary: rem) (simp_all add: Let_def)

lemma walk_candidates_stop:
  "snd (walk_candidates tr rem cs) = 0 \<or> length (fst (walk_candidates tr rem cs)) = length cs"
  by (induction cs arbitrary: rem) (auto simp: Let_def)

lemma walk_candidates_left:
  "snd (walk_candidates tr rem cs) = rem - sum_list (map fillQuantity (fst (walk_candidates tr rem cs)))"
  by (induction cs arbitrary: rem) (auto simp: Let_def)

lemma walk_candidates_nth:
  "i < length (fst (walk_candidates tr rem cs)) \<Longrightarrow>
   orderId (fst (walk_candidates tr rem cs) ! i) = order_id (cs ! i) \<and>
   orderUserId (fst (walk_candidates tr rem cs) ! i) = o_user_id (cs ! i) \<and>
   originalRemaining (fst (walk_candidates tr rem cs) ! i) = remaining_quantity (cs ! i) \<and>
   isContractTransfer (fst (walk_candidates tr rem cs) ! i) = tr \<and>
   fillQuantity (fst (walk_candidates tr rem cs) ! i) =
     min (rem - sum_list (map fillQuantity (take i (fst (walk_candidates tr rem cs)))))
         (remaining_quantity (cs ! i))"
proof (induction cs arbitrary: rem i)
  case Nil
  then show ?case by simp
next
  case (Cons c cs)
  show ?case
  proof (cases "rem = 0")
    case True
    with Cons.prems show ?thesis by simp
  next
    case False
    show ?thesis
    proof (cases i)
      case 0
      with False show ?thesis by (simp add: Let_def)
    next
      case (Suc j)
      with False Cons.prems
      have "j < length (fst (walk_candidates tr (rem - min rem (remaining_quantity c)) cs))"
        by (simp add: Let_def)
      from Cons.IH [OF this] False Suc show ?thesis
        by (simp add: Let_def algebra_simps)
    qed
  qed
qed

lemma walk_candidates_positive:
  "0 \<le> rem \<Longrightarrow> \<forall>c \<in> set cs. 0 < remaining_quantity c \<Longrightarrow>
   (\<forall>m \<in> set (fst (walk_candidates tr rem cs)). 0 < fillQuantity m) \<and>
   0 \<le> snd (walk_candidates tr rem cs)"
proof (induction cs arbitrary: rem)
  case Nil
  then show ?case by simp
next
  case (Cons c cs)
  from Cons.prems have "0 \<le> rem - min rem (remaining_quantity c)" by simp
  from Cons.IH [OF this] Cons.prems show ?case
    by (auto simp: Let_def)
qed

lemma walk_candidates_flag:
  "m \<in> set (fst (walk_candidates tr rem cs)) \<Longrightarrow> isContractTransfer m = tr"
  by (induction cs arbitrary: rem) (auto simp: Let_def split: if_splits)

lemma candidates_positive:
  "\<forall>c \<in> set (sell_candidates s req). 0 < remaining_quantity c"
  "\<forall>c \<in> set (mint_candidates s req). 0 < remaining_quantity c"
  by (simp_all add: sell_candidates_def mint_candidates_def)

lemma candidates_orders:
  "orders s1 = orders s2 \<Longrightarrow> sell_candidates s1 req = sell_candidates s2 req"
  "orders s1 = orders s2 \<Longrightarrow> mint_candidates s1 req = mint_candidates s2 req"
  by (simp_all add: sell_candidates_def mint_candidates_def)

lemma plan_matches_orders:
  "orders s1 = orders s2 \<Longrightarrow> plan_matches s1 req = plan_matches s2 req"
  by (simp add: plan_matches_def candidates_orders [of s1 s2])

text \<open>The plan of a buy, seen as one walk over the sell candidates followed by the mint candidates.\<close>

lemma plan_matches_length:
  "length (fst (plan_matches s req)) \<le> length (sell_candidates s req @ mint_candidates s req)"
  using walk_candidates_length [of True "po_quantity req" "sell_candidates s req"]
        walk_candidates_length [of False "snd (walk_candidates True (po_quantity req) (sell_candidates s req))" "mint_candidates s req"]
  by (simp add: plan_matches_def Let_def)

lemma plan_matches_stop:
  "snd (plan_matches s req) = 0 \<or>
   length (fst (plan_matches s req)) = length (sell_candidates s req @ mint_candidates s req)"
  using walk_candidates_stop [of True "po_quantity req" "sell_candidates s req"]
        walk_candidates_stop [of False "snd (walk_candidates True (po_quantity req) (sell_candidates s req))" "mint_candidates s req"]
  by (auto simp: plan_matches_def Let_def)

lemma plan_matches_left:
  "snd (plan_matches s req) = po_quantity req - sum_list (map fillQuantity (fst (plan_matches s req)))"
  using walk_candidates_left [of True "po_quantity req" "sell_candidates s req"]
        walk_candidates_left [of False "snd (walk_candidates True (po_quantity req) (sell_candidates s req))" "mint_candidates s req"]
  by (simp add: plan_matches_def Let_def)

lemma plan_matches_nth:
  assumes "i < length (fst (plan_matches s req))"
  shows "orderId (fst (plan_matches s req) ! i) =
           order_id ((sell_candidates s req @ mint_candidates s req) ! i) \<and>
         originalRemaining (fst (plan_matches s req) ! i) =
           remaining_quantity ((sell_candidates s req @ mint_candidates s req) ! i) \<and>
         isContractTransfer (fst (plan_matches s req) ! i) = (i < length (sell_candidates s req)) \<and>
         fillQuantity (fst (plan_matches s req) ! i) =
           min (po_quantity req - sum_list (map fillQuantity (take i (fst (plan_matches s req)))))
               (remaining_quantity ((sell_candidates s req @ mint_candidates s req) ! i))"
proof -
  define sells where "sells = sell_candidates s req"
  define mints where "mints = mint_candidates s req"
  define ms1 where "ms1 = fst (walk_candidates True (po_quantity req) sells)"
  define q1 where "q1 = snd (walk_candidates True (po_quantity req) sells)"
  define ms2 where "ms2 = fst (walk_candidates False q1 mints)"
  have ms: "fst (plan_matches s req) = ms1 @ ms2"
    by (simp add: plan_matches_def Let_def ms1_def ms2_def q1_def sells_def mints_def)
  have len1: "length ms1 \<le> length sells"
    unfolding ms1_def by (rule walk_candidates_length)
  show ?thesis
  proof (cases "i < length ms1")
    case True
    with len1 have "i < length sells" by simp
    moreover from True have "i < length (fst (walk_candidates True (po_quantity req) sells))"
      by (simp add: ms1_def)
    from walk_candidates_nth [OF this]
    have "orderId (ms1 ! i) = order_id (sells ! i) \<and>
          originalRemaining (ms1 ! i) = remaining_quantity (sells ! i) \<and>
          isContractTransfer (ms1 ! i) = True \<and>
          fillQuantity (ms1 ! i) =
            min (po_quantity req - sum_list (map fillQuantity (take i ms1)))
                (remaining_quantity (sells ! i))"
      by (simp add: ms1_def)
    ultimately show ?thesis using True
      by (simp add: ms nth_append sells_def [symmetric] mints_def [symmetric])
  next
    case False
    define j where "j = i - length ms1"
    from False assms have j: "j < length ms2" and i: "i = length ms1 + j"
      by (simp_all add: ms j_def)
    then have "ms2 \<noteq> []" by auto
    then have "q1 \<noteq> 0" by (auto simp: ms2_def simp del: walk_candidates.simps)
    with walk_candidates_stop [of True "po_quantity req" sells]
    have full: "length ms1 = length sells" by (simp add: ms1_def q1_def)
    have left: "q1 = po_quantity req - sum_list (map fillQuantity ms1)"
      unfolding q1_def ms1_def by (rule walk_candidates_left)
    from j have "j < length (fst (walk_candidates False q1 mints))"
      by (simp add: ms2_def)
    from walk_candidates_nth [OF this]
    have "orderId (ms2 ! j) = order_id (mints ! j) \<and>
          originalRemaining (ms2 ! j) = remaining_quantity (mints ! j) \<and>
          isContractTransfer (ms2 ! j) = False \<and>
          fillQuantity (ms2 ! j) =
            min (q1 - sum_list (map fillQuantity (take j ms2))) (remaining_quantity (mints ! j))"
      by (simp add: ms2_def)
    then show ?thesis using full
      by (simp add: ms i left nth_append sells_def [symmetric] mints_def [symmetric] algebra_simps)
  qed
qed

lemma plan_matches_positive:
  assumes "1 \<le> po_quantity req"
  shows "\<forall>m \<in> set (fst (plan_matches s req)). 0 < fillQuantity m"
proof -
  let ?w1 = "walk_candidates True (po_quantity req) (sell_candidates s req)"
  from assms have "0 \<le> po_quantity req" by simp
  from walk_candidates_positive [OF this candidates_positive(1)]
  have 1: "(\<forall>m \<in> set (fst ?w1). 0 < fillQuantity m) \<and> 0 \<le> snd ?w1" .
  then have "0 \<le> snd ?w1" by simp
  from walk_candidates_positive [OF this candidates_positive(2)]
  have 2: "\<forall>m \<in> set (fst (walk_candidates False (snd ?w1) (mint_candidates s req))). 0 < fillQuantity m"
    by simp
  from 1 2 show ?thesis by (auto simp: plan_matches_def Let_def)
qed

section \<open>Executing the plan of a buy order\<close>

lemma execute_match_trades:
  "trades (execute_match req lg s m) = trades (insert_trade s (trade_of_match req m))"
  by (simp add: execute_match_def Let_def)

lemma trade_of_match_price:
  "1 \<le> po_price req \<Longrightarrow> po_price req \<le> 99 \<Longrightarrow>
   1 \<le> t_price (trade_of_match req m) \<and> t_price (trade_of_match req m) \<le> 99"
  by (simp add: trade_of_match_def Let_def)

lemma foldl_execute_match_trades:
  assumes "1 \<le> po_price req" "po_price req \<le> 99"
  shows "\<forall>m \<in> set ms. 0 < fillQuantity m \<Longrightarrow>
         trades (foldl (execute_match req lg) s ms) = trades s @ map (trade_of_match req) ms"
proof (induction ms arbitrary: s)
  case Nil
  then show ?case by simp
next
  case (Cons m ms)
  have "t_quantity (trade_of_match req m) = fillQuantity m"
    by (simp add: trade_of_match_def Let_def)
  with Cons.prems trade_of_match_price [OF assms, of m]
  have "trades (execute_match req lg s m) = trades s @ [trade_of_match req m]"
    by (simp add: execute_match_trades insert_trade_def)
  with Cons show ?case by simp
qed

lemma settle_matched_order_length:
  "length (orders (settle_matched_order s m)) \<le> length (orders s)"
  by (simp add: settle_matched_order_def Let_def delete_order_def update_order_def)

lemma execute_match_orders_length:
  "length (orders (execute_match req lg s m)) \<le> length (orders s)"
  using settle_matched_order_length
  by (simp add: execute_match_def Let_def) (metis add_shares_frame(2) credit_frame(2) insert_trade_frame(1))

lemma foldl_execute_match_orders_length:
  "length (orders (foldl (execute_match req lg) s ms)) \<le> length (orders s)"
proof (induction ms arbitrary: s)
  case Nil
  then show ?case by simp
next
  case (Cons m ms)
  from Cons.IH [of "execute_match req lg s m"] execute_match_orders_length [of req lg s m]
  show ?case by simp
qed

lemma match_buy_response:
  "remaining (snd (match_buy new_id now s req lg)) = snd (plan_matches s req)"
  "matched (snd (match_buy new_id now s req lg)) = po_quantity req - snd (plan_matches s req)"
  "trades_count (snd (match_buy new_id now s req lg)) = length (fst (plan_matches s req))"
  by (simp_all add: match_buy_def Let_def)

lemma match_buy_trades:
  assumes "1 \<le> po_price req" "po_price req \<le> 99" "1 \<le> po_quantity req"
  shows "trades (fst (match_buy new_id now s req lg)) =
         trades s @ map (trade_of_match req) (fst (plan_matches s req))"
  using foldl_execute_match_trades [OF assms(1,2) plan_matches_positive [OF assms(3)]]
  by (simp add: match_buy_def Let_def)

lemma plan_matches_nonneg:
  assumes "1 \<le> po_quantity req"
  shows "0 \<le> snd (plan_matches s req)"
proof -
  let ?w1 = "walk_candidates True (po_quantity req) (sell_candidates s req)"
  from assms have "0 \<le> po_quantity req" by simp
  from walk_candidates_positive [OF this candidates_positive(1)]
  have "0 \<le> snd ?w1" by simp
  from walk_candidates_positive [OF this candidates_positive(2)]
  show ?thesis by (simp add: plan_matches_def Let_def)
qed

lemma match_buy_orders:
  assumes "1 \<le> po_price req" "po_price req \<le> 99" "1 \<le> po_quantity req"
  shows "\<exists>rest. length rest \<le> length (orders s) \<and>
           orders (fst (match_buy new_id now s req lg)) =
             rest @ (if 0 < snd (plan_matches s req)
                     then [resting_buy_order new_id now req (snd (plan_matches s req))] else [])"
proof -
  let ?s1 = "foldl (execute_match req lg) s (fst (plan_matches s req))"
  have "orders (fst (match_buy new_id now s req lg)) =
          orders ?s1 @ (if 0 < snd (plan_matches s req)
                     then [resting_buy_order new_id now req (snd (plan_matches s req))] else [])"
    using assms by (simp add: match_buy_def Let_def insert_order_def resting_buy_order_def)
  with foldl_execute_match_orders_length [of req lg s "fst (plan_matches s req)"]
  show ?thesis by blast
qed

section \<open>Successful placements\<close>

lemma place_order_success:
  assumes "place_order new_id now s req = Inr res"
  shows "\<not> has_pending_vote s (po_user_id req) \<and> po_market_id req \<noteq> [] \<and> po_user_id req \<noteq> [] \<and>
         1 \<le> po_price req \<and> po_price req \<le> 99 \<and> 1 \<le> po_quantity req \<and>
         (\<exists>market. find_market s (po_market_id req) = Some market \<and> status market = OPEN \<and>
            (is_admin s (po_user_id req) \<longrightarrow>
               res = match_buy new_id now s req
                       (effective_league (po_league_id req) (league_id market))) \<and>
            (\<not> is_admin s (po_user_id req) \<longrightarrow>
               (\<exists>l bal. effective_league (po_league_id req) (league_id market) = Some l \<and>
                  league_members s (l, po_user_id req) = Some bal \<and>
                  cost_per_share (po_side req) (po_price req) * po_quantity req \<le> bal \<and>
                  res = match_buy new_id now
                          (s\<lparr>league_members := (league_members s)((l, po_user_id req) \<mapsto>
                               bal - cost_per_share (po_side req) (po_price req) * po_quantity req)\<rparr>)
                          req (Some l))))"
  using assms
  by (auto simp: place_order_def Let_def member_balance_def debit_def
           split: if_splits option.splits)

text \<open>A successful placement is the matching phase run on a store with the same order
  book and trade log as the one the request found.\<close>

lemma place_order_matching:
  assumes "place_order new_id now s req = Inr (s', r)"
  obtains sd lg where "orders sd = orders s" and "trades sd = trades s"
    and "positions sd = positions s"
    and "(s', r) = match_buy new_id now sd req lg"
    and "1 \<le> po_price req" and "po_price req \<le> 99" and "1 \<le> po_quantity req"
proof (cases "is_admin s (po_user_id req)")
  case True
  with place_order_success [OF assms] that [of s] show ?thesis by blast
next
  case False
  with place_order_success [OF assms]
  obtain l bal where "(s', r) = match_buy new_id now
        (s\<lparr>league_members := (league_members s)((l, po_user_id req) \<mapsto>
             bal - cost_per_share (po_side req) (po_price req) * po_quantity req)\<rparr>) req (Some l)"
    and "1 \<le> po_price req" and "po_price req \<le> 99" and "1 \<le> po_quantity req"
    by blast
  then show ?thesis
    using that [of "s\<lparr>league_members := (league_members s)((l, po_user_id req) \<mapsto>
             bal - cost_per_share (po_side req) (po_price req) * po_quantity req)\<rparr>" "Some l"]
    by simp
qed

lemma sorted_candidates:
  "sorted (map created_at (sell_candidates s req))"
  "sorted (map created_at (mint_candidates s req))"
  by (simp_all add: sell_candidates_def mint_candidates_def)

section \<open>Executing a sale\<close>

lemma apply_order_update_frame [simp]:
  "trades (apply_order_update s u) = trades s"
  "positions (apply_order_update s u) = positions s"
  "league_members (apply_order_update s u) = league_members s"
  "markets (apply_order_update s u) = markets s"
  "votes (apply_order_update s u) = votes s"
  by (simp_all add: apply_order_update_def)

lemma foldl_apply_order_update_frame [simp]:
  "trades (foldl apply_order_update s us) = trades s"
  "positions (foldl apply_order_update s us) = positions s"
  "league_members (foldl apply_order_update s us) = league_members s"
  by (induction us arbitrary: s) simp_all

lemma escrow_shares_frame [simp]:
  "trades (escrow_shares s req pos) = trades s"
  "orders (escrow_shares s req pos) = orders s"
  "league_members (escrow_shares s req pos) = league_members s"
  "markets (escrow_shares s req pos) = markets s"
  "votes (escrow_shares s req pos) = votes s"
  by (simp_all add: escrow_shares_def)

lemma walk_buy_orders_users:
  "tr \<in> set (fst (walk_buy_orders rem cs)) \<Longrightarrow> buyer_user_id tr \<in> o_user_id ` set cs"
  by (induction cs arbitrary: rem) (auto simp: Let_def split: if_splits)

lemma matching_buy_orders_users:
  "ord \<in> set (matching_buy_orders s req) \<Longrightarrow> o_user_id ord \<noteq> sp_user_id req"
  by (simp add: matching_buy_orders_def)

lemma execute_sale_trades:
  "trades (execute_sale req lg s tr) = trades (insert_trade s (trade_of_sale req tr))"
  by (simp add: execute_sale_def Let_def)

lemma foldl_execute_sale_trades:
  "\<exists>ts. trades (foldl (execute_sale req lg) s mts) = trades s @ ts \<and>
        set ts \<subseteq> trade_of_sale req ` set mts"
proof (induction mts arbitrary: s)
  case Nil
  then show ?case by simp
next
  case (Cons tr mts)
  from Cons.IH [of "execute_sale req lg s tr"]
  obtain ts where ts: "trades (foldl (execute_sale req lg) (execute_sale req lg s tr) mts) =
        trades (execute_sale req lg s tr) @ ts" "set ts \<subseteq> trade_of_sale req ` set mts"
    by blast
  show ?case
  proof (cases "trades (execute_sale req lg s tr) = trades s")
    case True
    with ts show ?thesis by auto
  next
    case False
    then have "trades (execute_sale req lg s tr) = trades s @ [trade_of_sale req tr]"
      by (simp add: execute_sale_trades insert_trade_def split: if_splits)
    with ts have "trades (foldl (execute_sale req lg) s (tr # mts)) =
                    trades s @ (trade_of_sale req tr # ts) \<and>
                  set (trade_of_sale req tr # ts) \<subseteq> trade_of_sale req ` set (tr # mts)"
      by auto
    then show ?thesis by blast
  qed
qed

lemma trade_of_match_users:
  "orderUserId m \<noteq> po_user_id req \<Longrightarrow>
   yes_user_id (trade_of_match req m) \<noteq> no_user_id (trade_of_match req m)"
  by (cases "po_side req") (auto simp: trade_of_match_def Let_def)

lemma trade_of_sale_users:
  "buyer_user_id tr \<noteq> sp_user_id req \<Longrightarrow>
   yes_user_id (trade_of_sale req tr) \<noteq> no_user_id (trade_of_sale req tr)"
  by (cases "sp_side_to_sell req") (auto simp: trade_of_sale_def)

lemma match_sell_trades:
  "\<exists>ts. trades (fst (match_sell new_id now s req lg)) = trades s @ ts \<and>
        (\<forall>t \<in> set ts. yes_user_id t \<noteq> no_user_id t)"
proof -
  let ?mts = "fst (walk_buy_orders (sp_quantity req) (matching_buy_orders s req))"
  from foldl_execute_sale_trades [of req lg s ?mts]
  obtain ts where ts: "trades (foldl (execute_sale req lg) s ?mts) = trades s @ ts"
    "set ts \<subseteq> trade_of_sale req ` set ?mts" by blast
  have "yes_user_id t \<noteq> no_user_id t" if "t \<in> set ts" for t
  proof -
    from that ts(2) obtain tr where tr: "tr \<in> set ?mts" and t: "t = trade_of_sale req tr"
      by blast
    from walk_buy_orders_users [OF tr]
    have "buyer_user_id tr \<noteq> sp_user_id req"
      by (auto dest: matching_buy_orders_users)
    then show ?thesis unfolding t by (rule trade_of_sale_users)
  qed
  moreover have "trades (fst (match_sell new_id now s req lg)) = trades s @ ts"
    using ts(1) by (simp add: match_sell_def Let_def)
  ultimately show ?thesis by blast
qed

lemma sell_position_success:
  assumes "sell_position new_id now s req = Inr res"
  shows "sp_quantity req \<noteq> 0 \<and> 1 \<le> sp_price req \<and> sp_price req \<le> 99 \<and>
         (\<exists>market pos. find_market s (sp_market_id req) = Some market \<and> status market = OPEN \<and>
            find_position s (sp_market_id req) (sp_user_id req) = Some pos \<and>
            sp_quantity req \<le> (if sp_side_to_sell req = YES then yes_shares pos else no_shares pos) \<and>
            res = match_sell new_id now (escrow_shares s req pos) req
                    (effective_league (sp_league_id req) (league_id market)))"
  using assms
  by (auto simp: sell_position_def Let_def split: if_splits option.splits)

section \<open>The example placements succeed\<close>

lemma ex_direct_bob_succeeds:
  "\<exists>s' r. place_order ''n1'' 10 ex_direct (ex_buy_yes ''bob'') = Inr (s', r)"
proof (cases "place_order ''n1'' 10 ex_direct (ex_buy_yes ''bob'')")
  case (Inl e)
  then show ?thesis
    by (simp add: place_order_def has_pending_vote_def is_admin_def find_market_def
          member_balance_def effective_league_def cost_per_share_def ex_defs Let_def)
next
  case (Inr res)
  then show ?thesis by (cases res) simp
qed

lemma ex_direct_root_succeeds:
  "\<exists>s' r. place_order ''n1'' 10 ex_direct (ex_buy_yes ''root'') = Inr (s', r)"
proof (cases "place_order ''n1'' 10 ex_direct (ex_buy_yes ''root'')")
  case (Inl e)
  then show ?thesis
    by (simp add: place_order_def has_pending_vote_def is_admin_def find_market_def
          member_balance_def effective_league_def cost_per_share_def ex_defs Let_def)
next
  case (Inr res)
  then show ?thesis by (cases res) simp
qed

lemma ex_mixed_bob_succeeds:
  "\<exists>s' r. place_order ''n1'' 10 ex_mixed ex_buy_no = Inr (s', r)"
proof (cases "place_order ''n1'' 10 ex_mixed ex_buy_no")
  case (Inl e)
  then show ?thesis
    by (simp add: place_order_def has_pending_vote_def is_admin_def find_market_def
          member_balance_def effective_league_def cost_per_share_def ex_defs Let_def)
next
  case (Inr res)
  then show ?thesis by (cases res) simp
qed

lemma ex_direct_candidates:
  "sell_candidates ex_direct (ex_buy_yes ''bob'') @ mint_candidates ex_direct (ex_buy_yes ''bob'') =
     [\<lparr>order_id = ''oA'', o_market_id = ''m1'', o_user_id = ''alice'', o_side = YES,
       o_price = 55, o_quantity = 3, remaining_quantity = 3, is_sell_order = True,
       created_at = 1\<rparr>,
      \<lparr>order_id = ''oB'', o_market_id = ''m1'', o_user_id = ''carol'', o_side = YES,
       o_price = 55, o_quantity = 2, remaining_quantity = 2, is_sell_order = True,
       created_at = 2\<rparr>]"
  by (simp add: sell_candidates_def mint_candidates_def opposite_side_def ex_defs)

lemma ex_mixed_trades:
  "place_order ''n1'' 10 ex_mixed ex_buy_no = Inr (s', r) \<Longrightarrow>
   trades s' =
     [\<lparr>t_market_id = ''m1'', yes_user_id = ''alice'', no_user_id = ''bob'', t_price = 30,
       t_quantity = 1\<rparr>,
      \<lparr>t_market_id = ''m1'', yes_user_id = ''carol'', no_user_id = ''bob'', t_price = 70,
       t_quantity = 1\<rparr>]"
  by (auto simp add: model_defs ex_defs Let_def)

lemma ex_mixed_sell_candidates:
  "length (sell_candidates ex_mixed ex_buy_no) = 1"
  by (simp add: sell_candidates_def ex_defs)

section \<open>Resolution: frame facts and the tally path\<close>

lemma set_resolved_frame [simp]:
  "positions (set_resolved s mid outc) = positions s"
  "orders (set_resolved s mid outc) = orders s"
  "trades (set_resolved s mid outc) = trades s"
  "votes (set_resolved s mid outc) = votes s"
  "league_members (set_resolved s mid outc) = league_members s"
  by (simp_all add: set_resolved_def)

lemma pay_position_frame [simp]:
  "positions (fst (pay_position outc lg acc pos)) = positions (fst acc)"
  "markets (fst (pay_position outc lg acc pos)) = markets (fst acc)"
  "votes (fst (pay_position outc lg acc pos)) = votes (fst acc)"
  "trades (fst (pay_position outc lg acc pos)) = trades (fst acc)"
  by (simp_all add: pay_position_def Let_def split: option.splits)

lemma foldl_pay_position_frame [simp]:
  "positions (fst (foldl (pay_position outc lg) acc ps)) = positions (fst acc)"
  "markets (fst (foldl (pay_position outc lg) acc ps)) = markets (fst acc)"
  "votes (fst (foldl (pay_position outc lg) acc ps)) = votes (fst acc)"
  "trades (fst (foldl (pay_position outc lg) acc ps)) = trades (fst acc)"
  by (induction ps arbitrary: acc) simp_all

lemma refund_order_frame [simp]:
  "positions (fst (refund_order lg acc ord)) = positions (fst acc)"
  "markets (fst (refund_order lg acc ord)) = markets (fst acc)"
  "votes (fst (refund_order lg acc ord)) = votes (fst acc)"
  "trades (fst (refund_order lg acc ord)) = trades (fst acc)"
  by (simp_all add: refund_order_def Let_def split: option.splits)

lemma foldl_refund_order_frame [simp]:
  "positions (fst (foldl (refund_order lg) acc os)) = positions (fst acc)"
  "markets (fst (foldl (refund_order lg) acc os)) = markets (fst acc)"
  "votes (fst (foldl (refund_order lg) acc os)) = votes (fst acc)"
  "trades (fst (foldl (refund_order lg) acc os)) = trades (fst acc)"
  by (induction os arbitrary: acc) simp_all

lemma settle_frame:
  "positions (fst (settle s mid lg outc)) = positions s"
  "markets (fst (settle s mid lg outc)) = markets (set_resolved s mid outc)"
  "votes (fst (settle s mid lg outc)) = votes s"
  "trades (fst (settle s mid lg outc)) = trades s"
  by (simp_all add: settle_def Let_def)

lemma settle_response:
  "\<exists>p f. snd (settle s mid lg outc) = Resolved outc p f"
  by (simp add: settle_def Let_def)

lemma refund_stake_frame [simp]:
  "positions (refund_stake ch lg s v) = positions s"
  "orders (refund_stake ch lg s v) = orders s"
  "trades (refund_stake ch lg s v) = trades s"
  "markets (refund_stake ch lg s v) = markets s"
  "votes (refund_stake ch lg s v) = votes s"
  by (simp_all add: refund_stake_def)

lemma refund_stakes_frame [simp]:
  "positions (refund_stakes ch lg s vs) = positions s"
  "orders (refund_stakes ch lg s vs) = orders s"
  "trades (refund_stakes ch lg s vs) = trades s"
  "markets (refund_stakes ch lg s vs) = markets s"
  "votes (refund_stakes ch lg s vs) = votes s"
  unfolding refund_stakes_def by (induction vs arbitrary: s) simp_all

lemma refund_stakes_balance:
  "league_members (refund_stakes ch lg s vs) (l, u) =
     (if lg = Some l
      then map_option
             (\<lambda>b. b + sum_list (map stake_amount
                      (filter (\<lambda>v. v_user_id v = u \<and> vote v = ch \<and> 0 < stake_amount v) vs)))
             (league_members s (l, u))
      else league_members s (l, u))"
  unfolding refund_stakes_def
proof (induction vs arbitrary: s)
  case Nil
  then show ?case by (simp add: option.map_ident)
next
  case (Cons v vs)
  show ?case
    by (simp add: Cons.IH [of "refund_stake ch lg s v"])
       (auto simp: refund_stake_def credit_def option.map_comp comp_def algebra_simps
             split: option.splits)
qed

lemma find_map_update:
  "find P xs = Some x \<Longrightarrow> (\<And>y. P (f y) = P y) \<Longrightarrow>
   find P (map (\<lambda>y. if P y then f y else y) xs) = Some (f x)"
  by (induction xs) (auto split: if_splits)

lemma find_market_set_resolved:
  "find_market s mid = Some market \<Longrightarrow>
   find_market (set_resolved s mid outc) mid =
     Some (market\<lparr>status := RESOLVED, resolved_outcome := Some outc\<rparr>)"
  unfolding find_market_def set_resolved_def
  using find_map_update [of "\<lambda>m. market_id m = mid" "markets s" market
          "\<lambda>m. m\<lparr>status := RESOLVED, resolved_outcome := Some outc\<rparr>"]
  by simp

lemma find_market_reopen_market:
  "find_market s mid = Some market \<Longrightarrow>
   find_market (reopen_market s mid) mid =
     Some (market\<lparr>status := OPEN, reported_at := None, reported_by := None,
                  evidence_url := None\<rparr>)"
  unfolding find_market_def reopen_market_def
  using find_map_update [of "\<lambda>m. market_id m = mid" "markets s" market
          "\<lambda>m. m\<lparr>status := OPEN, reported_at := None, reported_by := None,
                   evidence_url := None\<rparr>"]
  by simp

lemma find_market_markets:
  "markets s1 = markets s2 \<Longrightarrow> find_market s1 mid = find_market s2 mid"
  by (simp add: find_market_def)

lemma reopen_market_frame [simp]:
  "positions (reopen_market s mid) = positions s"
  "orders (reopen_market s mid) = orders s"
  "trades (reopen_market s mid) = trades s"
  "league_members (reopen_market s mid) = league_members s"
  "votes (reopen_market s mid) = filter (\<lambda>v. v_market_id v \<noteq> mid) (votes s)"
  by (simp_all add: reopen_market_def)

lemma foldl_admin_tally_zero:
  "adminWeight s = 0 \<Longrightarrow> foldl (admin_tally s) acc vs = acc"
  by (induction vs arbitrary: acc) (simp_all add: admin_tally_def)

lemma yesPercentage_zero_weights:
  "yesBlocWeight s = 0 \<Longrightarrow> noBlocWeight s = 0 \<Longrightarrow> adminWeight s = 0 \<Longrightarrow>
   yesPercentage s vs = 0"
  by (simp add: yesPercentage_def Let_def foldl_admin_tally_zero)

text \<open>The tally path, once the gates before the tally are passed.\<close>

lemma resolve_market_tally:
  assumes "rm_market_id req \<noteq> []"
    and "rm_admin_user_id req = None \<or> rm_admin_user_id req = Some []"
    and "find_market s (rm_market_id req) = Some market"
    and "status market = VOTING"
    and "filter (\<lambda>v. v_market_id v = rm_market_id req) (votes s) \<noteq> []"
    and "\<forall>p \<in> set (positions s).
           p_market_id p = rm_market_id req \<and> (0 < yes_shares p \<or> 0 < no_shares p) \<longrightarrow>
           p_user_id p \<in> v_user_id ` set (filter (\<lambda>v. v_market_id v = rm_market_id req) (votes s))"
  shows "resolve_market s req =
     (if yesPercentage s (filter (\<lambda>v. v_market_id v = rm_market_id req) (votes s)) \<le> 50
      then Inr (reopen_market
                  (refund_stakes NO (league_id market) s
                     (filter (\<lambda>v. v_market_id v = rm_market_id req) (votes s)))
                  (rm_market_id req), Rejected)
      else Inr (settle
                  (refund_stakes YES (league_id market) s
                     (filter (\<lambda>v. v_market_id v = rm_market_id req) (votes s)))
                  (rm_market_id req) (league_id market) YES))"
proof -
  have "list_all (\<lambda>p. p_user_id p \<in> set (map v_user_id
            (filter (\<lambda>v. v_market_id v = rm_market_id req) (votes s))))
          (filter (\<lambda>p. yes_shares p > 0 \<or> no_shares p > 0)
             (filter (\<lambda>p. p_market_id p = rm_market_id req) (positions s)))"
    using assms(6) by (auto simp: list_all_iff)
  with assms(1-5) show ?thesis
    by (auto simp: resolve_market_def Let_def)
qed

section \<open>Gates of the handlers\<close>

lemma force_resolve_ignores_status:
  assumes "rm_market_id req \<noteq> []" and "rm_admin_user_id req = Some a" and "a \<noteq> []"
    and "is_admin s a" and "find_market s (rm_market_id req) = Some market"
  shows "resolve_market s req =
           Inr (settle s (rm_market_id req) (league_id market) (rm_outcome req))"
  using assms by (simp add: resolve_market_def Let_def)

lemma tally_requires_voting:
  assumes "rm_admin_user_id req = None" and "find_market s (rm_market_id req) = Some market"
    and "status market \<noteq> VOTING" and "rm_market_id req \<noteq> []"
  shows "resolve_market s req = Inl MarketNotInVoting"
  using assms by (simp add: resolve_market_def Let_def)

lemma place_order_pending_vote:
  "has_pending_vote s (po_user_id req) \<Longrightarrow>
   place_order new_id now s req = Inl PendingVoteBlocksTrading"
  by (simp add: place_order_def)

lemma place_order_quantity_below_one:
  "po_quantity req < 1 \<Longrightarrow> \<exists>e. place_order new_id now s req = Inl e"
  by (simp add: place_order_def Let_def)

section \<open>The example resolutions\<close>

lemma ex_voted_market:
  "find_market (ex_voted a b) (rm_market_id ex_tally) =
     Some ((ex_market ''m1'' VOTING)\<lparr>reported_at := Some 7, reported_by := Some ''alice'',
                  evidence_url := Some ''http://e''\<rparr>)"
  by (simp add: find_market_def ex_defs)

lemma ex_voted_votes:
  "filter (\<lambda>v. v_market_id v = rm_market_id ex_tally) (votes (ex_voted a b)) =
     [\<lparr>v_market_id = ''m1'', v_user_id = ''alice'', vote = a, stake_amount = 50\<rparr>,
      \<lparr>v_market_id = ''m1'', v_user_id = ''bob'', vote = b, stake_amount = 50\<rparr>]"
  by (simp add: ex_defs)

lemma ex_voted_percentage:
  "yesPercentage (ex_voted YES YES) (votes (ex_voted YES YES)) = 100"
  "yesPercentage (ex_voted YES NO) (votes (ex_voted YES NO)) = 50"
  by (simp_all add: yesPercentage_def admin_tally_def is_admin_def yesBlocWeight_def
        noBlocWeight_def adminWeight_def ex_defs Let_def)

text \<open>The first forced resolution of the example market.\<close>

lemma ex_force_first:
  "resolve_market ex_voting ex_force = Inr (s', resp) \<Longrightarrow>
   resp = Resolved YES 300 80 \<and>
   markets s' = [(ex_market ''m1'' RESOLVED)\<lparr>resolved_outcome := Some YES,
                    reported_at := Some 7, reported_by := Some ''alice'',
                    evidence_url := Some ''http://e''\<rparr>] \<and>
   map (\<lambda>p. (p_user_id p, yes_shares p, no_shares p)) (positions s') =
     [(''alice'', 3, 0), (''bob'', 0, 5)] \<and>
   orders s' = [] \<and> votes s' = [] \<and>
   admin_roles s' = [''root''] \<and>
   league_members s' (''L'', ''alice'') = Some 1300 \<and>
   league_members s' (''L'', ''carol'') = Some 580"
  by (auto simp add: model_defs ex_defs Let_def)

lemma ex_force_succeeds:
  "\<exists>s' resp. resolve_market ex_voting ex_force = Inr (s', resp)"
proof (cases "resolve_market ex_voting ex_force")
  case (Inl e)
  then show ?thesis
    by (simp add: resolve_market_def find_market_def is_admin_def ex_defs Let_def)
next
  case (Inr res)
  then show ?thesis by (cases res) simp
qed

lemma resolve_market_positions:
  "resolve_market s req = Inr (s', resp) \<Longrightarrow> positions s' = positions s"
  by (auto simp: resolve_market_def Let_def settle_frame
           split: if_splits option.splits dest!: arg_cong [where f = fst])

section \<open>Claims about place-order\<close>



text \<open>
  C3. A successful buy by a user without the admin role debits the membership row of the
  effective league by the full cost (P * Q for YES, (100 - P) * Q for NO) before matching:
  the matching phase runs on the store with the debited balance, and the balance after
  the whole request is the old balance less the cost; the user's rows in other leagues
  are untouched.
\<close>

theorem buy_debit_in_full_before_matching:
  assumes "place_order new_id now s req = Inr (s', r)" and "\<not> is_admin s (po_user_id req)"
  shows "\<exists>l bal. league_members s (l, po_user_id req) = Some bal \<and>
           (s', r) = match_buy new_id now
             (s\<lparr>league_members := (league_members s)((l, po_user_id req) \<mapsto>
                   bal - (if po_side req = YES then po_price req * po_quantity req
                          else (100 - po_price req) * po_quantity req))\<rparr>) req (Some l) \<and>
           league_members s' (l, po_user_id req) =
             Some (bal - (if po_side req = YES then po_price req * po_quantity req
                          else (100 - po_price req) * po_quantity req)) \<and>
           (\<forall>l'. l' \<noteq> l \<longrightarrow>
              league_members s' (l', po_user_id req) = league_members s (l', po_user_id req))"
proof -
  from place_order_success [OF assms(1)] assms(2)
  obtain l bal where b: "league_members s (l, po_user_id req) = Some bal"
    and m: "(s', r) = match_buy new_id now
              (s\<lparr>league_members := (league_members s)((l, po_user_id req) \<mapsto>
                     bal - cost_per_share (po_side req) (po_price req) * po_quantity req)\<rparr>)
              req (Some l)"
    by blast
  let ?c = "cost_per_share (po_side req) (po_price req) * po_quantity req"
  let ?sd = "s\<lparr>league_members := (league_members s)((l, po_user_id req) \<mapsto> bal - ?c)\<rparr>"
  have c: "?c = (if po_side req = YES then po_price req * po_quantity req
                          else (100 - po_price req) * po_quantity req)"
    by (simp add: cost_per_share_def)
  from m have s': "s' = fst (match_buy new_id now ?sd req (Some l))"
    by (metis fst_conv)
  have 1: "league_members s' (l, po_user_id req) = Some (bal - ?c)"
    unfolding s' by (simp add: match_buy_members)
  have 2: "\<forall>l'. l' \<noteq> l \<longrightarrow>
             league_members s' (l', po_user_id req) = league_members s (l', po_user_id req)"
    unfolding s' by (simp add: match_buy_members)
  from b m 1 2 show ?thesis unfolding c by blast
qed

theorem buy_debit_in_full_before_matching_witness:
  "\<not> is_admin ex_direct ''bob'' \<and> league_members ex_direct (''L'', ''bob'') = Some 1000 \<and>
   (\<exists>s' r. place_order ''n1'' 10 ex_direct (ex_buy_yes ''bob'') = Inr (s', r) \<and>
      league_members s' (''L'', ''bob'') = Some 890)"
proof -
  have a: "\<not> is_admin ex_direct (po_user_id (ex_buy_yes ''bob''))"
    by (simp add: is_admin_def ex_defs)
  from ex_direct_bob_succeeds obtain s' r
    where e: "place_order ''n1'' 10 ex_direct (ex_buy_yes ''bob'') = Inr (s', r)" by blast
  from buy_debit_in_full_before_matching [OF e a]
  obtain l bal where b: "league_members ex_direct (l, ''bob'') = Some bal"
    and f: "league_members s' (l, ''bob'') = Some (bal - 110)"
    by (auto simp: ex_buy_yes_def)
  from b have "l = ''L''"
    by (auto simp: ex_defs split: if_splits)
  with b f have "league_members s' (''L'', ''bob'') = Some 890"
    by (simp add: ex_defs)
  with e a show ?thesis by (simp add: ex_defs)
qed

text \<open>
  C10. A successful buy by a user with the admin role leaves every membership balance of
  that user as it was: no debit is made, whatever the price, the quantity and the
  matches.
\<close>

theorem admin_buy_no_debit:
  assumes "place_order new_id now s req = Inr (s', r)" and "is_admin s (po_user_id req)"
  shows "league_members s' (l, po_user_id req) = league_members s (l, po_user_id req)"
proof -
  from place_order_success [OF assms(1)] assms(2)
  obtain lg where "(s', r) = match_buy new_id now s req lg"
    by blast
  then have "s' = fst (match_buy new_id now s req lg)"
    by (metis fst_conv)
  then show ?thesis by (simp add: match_buy_members)
qed

theorem admin_buy_no_debit_witness:
  "is_admin ex_direct ''root'' \<and>
   (\<exists>s' r. place_order ''n1'' 10 ex_direct (ex_buy_yes ''root'') = Inr (s', r) \<and>
      league_members s' (''L'', ''root'') = Some 1000)"
proof -
  have a: "is_admin ex_direct (po_user_id (ex_buy_yes ''root''))"
    by (simp add: is_admin_def ex_defs)
  from ex_direct_root_succeeds obtain s' r
    where e: "place_order ''n1'' 10 ex_direct (ex_buy_yes ''root'') = Inr (s', r)" by blast
  from admin_buy_no_debit [OF e a, of "''L''"]
  have "league_members s' (''L'', ''root'') = Some 1000"
    by (simp add: ex_defs)
  with e a show ?thesis by (simp add: ex_buy_yes_def)
qed

text \<open>
  C5 (as stated). The claim gives every trade of one placement the same recorded price,
  the incoming order's price in YES terms. A NO buy at 30 that meets a resting NO sell and a
  resting YES buy records the first trade at 30 and the second at 70.
\<close>

theorem trade_price_two_values:
  "(case place_order ''n1'' 10 ex_mixed ex_buy_no of
      Inl e \<Rightarrow> [] | Inr res \<Rightarrow> map t_price (trades (fst res))) = [30, 70]"
proof -
  from ex_mixed_bob_succeeds obtain s' r
    where e: "place_order ''n1'' 10 ex_mixed ex_buy_no = Inr (s', r)" by blast
  from ex_mixed_trades [OF e] show ?thesis by (simp add: e)
qed

text \<open>
  C5 (amended). The new trades are appended to the trade log, one per match. Those of the
  direct-transfer pass, which come first, carry the incoming order's price P whatever its
  side; those of the mint pass carry P for a YES order and 100 - P for a NO order.
\<close>

theorem trade_price_by_pass:
  assumes "place_order new_id now s req = Inr (s', r)"
  shows "\<exists>ts. trades s' = trades s @ ts \<and> length ts = trades_count r \<and>
           (\<forall>i < length ts.
              t_price (ts ! i) =
                (if i < length (sell_candidates s req) then po_price req
                 else if po_side req = YES then po_price req else 100 - po_price req))"
proof -
  from assms obtain sd lg where sd: "orders sd = orders s" "trades sd = trades s"
    and mb: "(s', r) = match_buy new_id now sd req lg"
    and pq: "1 \<le> po_price req" "po_price req \<le> 99" "1 \<le> po_quantity req"
    by (rule place_order_matching)
  from mb have s': "s' = fst (match_buy new_id now sd req lg)"
    and r: "r = snd (match_buy new_id now sd req lg)"
    by (metis fst_conv, metis snd_conv)
  have plan: "plan_matches sd req = plan_matches s req"
    using sd(1) by (rule plan_matches_orders)
  let ?ms = "fst (plan_matches s req)"
  let ?ts = "map (trade_of_match req) ?ms"
  have 1: "trades s' = trades s @ ?ts"
    unfolding s' using match_buy_trades [OF pq, of new_id now sd lg] by (simp add: sd plan)
  have 2: "length ?ts = trades_count r"
    unfolding r by (simp add: match_buy_response plan)
  have 3: "t_price (?ts ! i) =
                (if i < length (sell_candidates s req) then po_price req
                 else if po_side req = YES then po_price req else 100 - po_price req)"
    if "i < length ?ts" for i
  proof -
    from that have i: "i < length ?ms" by simp
    from plan_matches_nth [OF i]
    have "isContractTransfer (?ms ! i) = (i < length (sell_candidates s req))" by simp
    with i show ?thesis by (simp add: trade_of_match_def Let_def)
  qed
  from 1 2 3 show ?thesis by blast
qed

theorem trade_price_by_pass_witness:
  "\<exists>s' r. place_order ''n1'' 10 ex_mixed ex_buy_no = Inr (s', r) \<and>
     map t_price (trades s') = [30, 100 - 30]"
proof -
  from ex_mixed_bob_succeeds obtain s' r
    where e: "place_order ''n1'' 10 ex_mixed ex_buy_no = Inr (s', r)" by blast
  from trade_price_by_pass [OF e] obtain ts
    where ts: "trades s' = trades ex_mixed @ ts"
      and p: "\<forall>i < length ts. t_price (ts ! i) =
                (if i < length (sell_candidates ex_mixed ex_buy_no) then po_price ex_buy_no
                 else if po_side ex_buy_no = YES then po_price ex_buy_no
                 else 100 - po_price ex_buy_no)"
    by blast
  from ts have eq: "trades s' = ts" by (simp add: ex_mixed_def)
  with ex_mixed_trades [OF e] have len: "length ts = 2" by simp
  have fields: "po_price ex_buy_no = 30" "po_side ex_buy_no = NO"
    by (simp_all add: ex_buy_no_def)
  from p len have "t_price (ts ! 0) = 30" and "t_price (ts ! 1) = 100 - 30"
    by (simp_all add: ex_mixed_sell_candidates fields)
  moreover from len obtain a b where "ts = [a, b]"
    by (cases ts; cases "tl ts") auto
  ultimately have "map t_price (trades s') = [30, 100 - 30]" by (simp add: eq)
  then show ?thesis
    by (intro exI [of _ s'] exI [of _ r] conjI e)
qed

section \<open>Claims about both trading handlers\<close>

text \<open>
  C9. The candidate queries of the buy handler (both passes) and of the sell handler
  select no order of the acting user, and every trade a successful placement or sale
  appends to the trade log has two different users on its YES and NO side.
\<close>

theorem no_self_trade:
  "(\<forall>ord \<in> set (sell_candidates s req). o_user_id ord \<noteq> po_user_id req) \<and>
   (\<forall>ord \<in> set (mint_candidates s req). o_user_id ord \<noteq> po_user_id req) \<and>
   (\<forall>ord \<in> set (matching_buy_orders s sreq). o_user_id ord \<noteq> sp_user_id sreq) \<and>
   (\<forall>s' r. place_order new_id now s req = Inr (s', r) \<longrightarrow>
      (\<exists>ts. trades s' = trades s @ ts \<and> length ts = trades_count r \<and>
         (\<forall>t \<in> set ts. yes_user_id t \<noteq> no_user_id t))) \<and>
   (\<forall>s' r. sell_position new_id now s sreq = Inr (s', r) \<longrightarrow>
      (\<exists>ts. trades s' = trades s @ ts \<and> (\<forall>t \<in> set ts. yes_user_id t \<noteq> no_user_id t)))"
proof -
  have buy: "\<exists>ts. trades s' = trades s @ ts \<and> length ts = trades_count r \<and>
         (\<forall>t \<in> set ts. yes_user_id t \<noteq> no_user_id t)"
    if h: "place_order new_id now s req = Inr (s', r)" for s' r
  proof -
    from h obtain sd lg where sd: "orders sd = orders s" "trades sd = trades s"
      and mb: "(s', r) = match_buy new_id now sd req lg"
      and pq: "1 \<le> po_price req" "po_price req \<le> 99" "1 \<le> po_quantity req"
      by (rule place_order_matching)
    from mb have s': "s' = fst (match_buy new_id now sd req lg)"
      and r: "r = snd (match_buy new_id now sd req lg)"
      by (metis fst_conv, metis snd_conv)
    let ?ms = "fst (plan_matches sd req)"
    have 1: "trades s' = trades s @ map (trade_of_match req) ?ms"
      unfolding s' using match_buy_trades [OF pq, of new_id now sd lg] by (simp add: sd)
    have 2: "length (map (trade_of_match req) ?ms) = trades_count r"
      unfolding r by (simp add: match_buy_response)
    have 3: "\<forall>t \<in> set (map (trade_of_match req) ?ms). yes_user_id t \<noteq> no_user_id t"
      using plan_matches_users [of _ sd req] trade_of_match_users [of _ req] by auto
    from 1 2 3 show ?thesis by blast
  qed
  have sell: "\<exists>ts. trades s' = trades s @ ts \<and> (\<forall>t \<in> set ts. yes_user_id t \<noteq> no_user_id t)"
    if h: "sell_position new_id now s sreq = Inr (s', r)" for s' r
  proof -
    from sell_position_success [OF h] obtain pos lg
      where "(s', r) = match_sell new_id now (escrow_shares s sreq pos) sreq lg" by blast
    then have "s' = fst (match_sell new_id now (escrow_shares s sreq pos) sreq lg)"
      by (metis fst_conv)
    with match_sell_trades [of new_id now "escrow_shares s sreq pos" sreq lg]
    show ?thesis by simp
  qed
  from buy sell show ?thesis
    by (simp add: sell_candidates_users mint_candidates_users matching_buy_orders_users)
qed

theorem no_self_trade_witness:
  "\<exists>s' r. place_order ''n1'' 10 ex_mixed ex_buy_no = Inr (s', r) \<and>
     length (trades s') = 2 \<and> list_all (\<lambda>t. yes_user_id t \<noteq> no_user_id t) (trades s')"
proof -
  from ex_mixed_bob_succeeds obtain s' r
    where e: "place_order ''n1'' 10 ex_mixed ex_buy_no = Inr (s', r)" by blast
  from no_self_trade [of ex_mixed ex_buy_no "ex_sell 1" "''n1''" 10] e
  obtain ts where "trades s' = trades ex_mixed @ ts"
    and "\<forall>t \<in> set ts. yes_user_id t \<noteq> no_user_id t" by blast
  then have "list_all (\<lambda>t. yes_user_id t \<noteq> no_user_id t) (trades s')"
    by (simp add: ex_mixed_def list_all_iff)
  moreover from ex_mixed_trades [OF e] have "length (trades s') = 2" by simp
  ultimately show ?thesis
    by (intro exI [of _ s'] exI [of _ r] conjI e)
qed

section \<open>Claims about resolve-market\<close>



text \<open>
  C8 (as stated). The claim has every position of the market at zero after the payout. A
  forced resolution with outcome YES pays alice 300 tokens for her 3 YES shares, and her
  position still holds 3 YES shares afterwards (and bob's his 5 NO shares).
\<close>

theorem settlement_zeroes_nothing:
  "(case resolve_market ex_voting ex_force of
      Inl e \<Rightarrow> None
    | Inr res \<Rightarrow>
        Some (snd res, league_members (fst res) (''L'', ''alice''),
              map (\<lambda>p. (p_user_id p, yes_shares p, no_shares p)) (positions (fst res)))) =
   Some (Resolved YES 300 80, Some 1300, [(''alice'', 3, 0), (''bob'', 0, 5)])"
proof -
  from ex_force_succeeds obtain s' resp
    where e: "resolve_market ex_voting ex_force = Inr (s', resp)" by blast
  from ex_force_first [OF e] show ?thesis
    by (simp add: e)
qed

text \<open>
  C8 (amended). The settlement routine writes no position: after it has paid out, every
  position row holds the share counts it held before, and so does the positions table
  after any successful request to the resolution handler.
\<close>

theorem settlement_keeps_positions:
  "positions (fst (settle s mid lg outc)) = positions s \<and>
   (\<forall>s' resp. resolve_market s req = Inr (s', resp) \<longrightarrow> positions s' = positions s)"
  by (simp add: settle_frame resolve_market_positions)

theorem settlement_keeps_positions_witness:
  "\<exists>s' resp. resolve_market ex_voting ex_force = Inr (s', resp) \<and>
     resp = Resolved YES 300 80 \<and>
     map (\<lambda>p. (p_user_id p, yes_shares p, no_shares p)) (positions s') =
       [(''alice'', 3, 0), (''bob'', 0, 5)]"
proof -
  from ex_force_succeeds obtain s' resp
    where e: "resolve_market ex_voting ex_force = Inr (s', resp)" by blast
  from settlement_keeps_positions [of ex_voting "''m1''" "Some ''L''" YES ex_force] e
  have "positions s' = positions ex_voting" by blast
  then have "map (\<lambda>p. (p_user_id p, yes_shares p, no_shares p)) (positions s') =
       [(''alice'', 3, 0), (''bob'', 0, 5)]"
    by (simp add: ex_voting_def)
  with ex_force_first [OF e] show ?thesis
    by (intro exI [of _ s'] exI [of _ resp] conjI e) simp_all
qed

text \<open>
  C1. The claim expects a second resolution of a RESOLVED market to fail and to pay
  nothing. The tally path refuses any market that is not in VOTING
  (\<open>tally_requires_voting\<close>), but the admin path settles whatever the status is
  (\<open>force_resolve_ignores_status\<close>). Forcing the example market twice succeeds twice:
  the market is RESOLVED after the first call, which pays alice 300 (balance 1300) and
  refunds the resting order; the second call answers success again and pays alice another
  300 (balance 1600).
\<close>

theorem force_resolve_twice_pays_twice:
  "(case resolve_market ex_voting ex_force of
      Inl e \<Rightarrow> None
    | Inr res \<Rightarrow>
        (case resolve_market (fst res) ex_force of
           Inl e \<Rightarrow> None
         | Inr res' \<Rightarrow>
             Some (map status (markets (fst res)), snd res,
                   league_members (fst res) (''L'', ''alice''),
                   snd res', league_members (fst res') (''L'', ''alice'')))) =
   Some ([RESOLVED], Resolved YES 300 80, Some 1300, Resolved YES 300 0, Some 1600)"
  by (simp add: model_defs ex_defs Let_def)

section \<open>Claims about sell-position\<close>

text \<open>
  C6. The claim expects both trading handlers to answer PendingVoteBlocksTrading when
  the user has an unvoted market in VOTING. The buy handler does
  (\<open>place_order_pending_vote\<close>); the sell handler has no such gate. With the market
  \<open>m2\<close> in VOTING and no vote of bob's, bob's buy is refused and bob's sale of 1 YES share
  goes through: his position drops from 2 to 1 and a sell order rests.
\<close>

theorem sell_ignores_pending_vote:
  "has_pending_vote ex_pending ''bob'' \<and>
   place_order ''n1'' 10 ex_pending (ex_buy_yes ''bob'') = Inl PendingVoteBlocksTrading \<and>
   (case sell_position ''n1'' 10 ex_pending (ex_sell 1) of
      Inl e \<Rightarrow> None
    | Inr res \<Rightarrow>
        Some (snd res, map yes_shares (positions (fst res)), map order_id (orders (fst res)))) =
   Some (\<lparr>matched = 0, remaining = 1, trades_count = 0\<rparr>, [1], [''n1''])"
  by (simp add: model_defs ex_defs Let_def)

text \<open>
  C7. The claim expects a sale with a quantity below 1 to be refused and no request to
  raise the seller's share count. The buy handler refuses a quantity below 1
  (\<open>place_order_quantity_below_one\<close>); the sell handler only refuses the quantity 0,
  as a missing field. A sale of -5 YES shares by bob, who holds 2, passes the share check
  (-5 is not above 2), and the escrow step writes 2 - (-5) = 7 shares into his position;
  nothing matches and nothing rests.
\<close>

theorem sell_negative_quantity_adds_shares:
  "place_order ''n1'' 10 ex_holder ((ex_buy_yes ''bob'')\<lparr>po_quantity := - 5\<rparr>) =
     Inl InvalidQuantity \<and>
   map yes_shares (positions ex_holder) = [2] \<and>
   (case sell_position ''n1'' 10 ex_holder (ex_sell (- 5)) of
      Inl e \<Rightarrow> None
    | Inr res \<Rightarrow>
        Some (snd res, map yes_shares (positions (fst res)), map order_id (orders (fst res)))) =
   Some (\<lparr>matched = 0, remaining = - 5, trades_count = 0\<rparr>, [7], [])"
  by (simp add: model_defs ex_defs Let_def)

end
